theory Spec2Isabelle
  imports Main "HOL-Library.Sublist" "HOL-Library.Char_ord" "HOL-Library.List_Lexorder"
begin

section \<open>Python string primitives used by rifle and the tag store\<close>

text \<open>
  Strings are lists of 8-bit characters, as Python 2 byte strings are. The case mapping is the
  ASCII one: \<open>str.upper\<close> and \<open>str.lower\<close> change the letters a-z and A-Z and leave every other
  character as it is. On Python 3 strings the case mapping, the whitespace and the digits are
  Unicode's, which differs from what is written here on characters outside ASCII only.
\<close>

definition ascii_lowercase :: string where
  "ascii_lowercase = ''abcdefghijklmnopqrstuvwxyz''"

definition ascii_uppercase :: string where
  "ascii_uppercase = ''ABCDEFGHIJKLMNOPQRSTUVWXYZ''"

definition upper :: "char \<Rightarrow> char" where
  "upper c = (case map_of (zip ascii_lowercase ascii_uppercase) c of Some u \<Rightarrow> u | None \<Rightarrow> c)"

definition lower :: "char \<Rightarrow> char" where
  "lower c = (case map_of (zip ascii_uppercase ascii_lowercase) c of Some l \<Rightarrow> l | None \<Rightarrow> c)"

text \<open>
  \<open>str.strip()\<close>, \<open>str.lstrip()\<close> and \<open>str.rstrip()\<close> without an argument remove the
  ASCII whitespace characters (space, tab, newline, vertical tab, form feed, carriage return).
\<close>

definition is_space :: "char \<Rightarrow> bool" where
  "is_space c = (c \<in> set [CHR '' '', CHR 0x09, CHR 0x0A, CHR 0x0B, CHR 0x0C, CHR 0x0D])"

definition lstrip :: "string \<Rightarrow> string" where
  "lstrip s = dropWhile is_space s"

definition rstrip :: "string \<Rightarrow> string" where
  "rstrip s = rev (dropWhile is_space (rev s))"

definition strip :: "string \<Rightarrow> string" where
  "strip s = lstrip (rstrip s)"

definition startswith :: "string \<Rightarrow> string \<Rightarrow> bool" where
  "startswith s p = (take (length p) s = p)"

text \<open>\<open>s.split(d)\<close> for a one-character separator: every occurrence splits, empty fields are kept.\<close>

fun split_char :: "char \<Rightarrow> string \<Rightarrow> string list" where
  "split_char d [] = [[]]"
| "split_char d (c # cs) =
     (if c = d then [] # split_char d cs
      else (case split_char d cs of [] \<Rightarrow> [[c]] | w # ws \<Rightarrow> (c # w) # ws))"

text \<open>\<open>s.split(d, 1)\<close> when \<open>d\<close> occurs in \<open>s\<close>: the text before the first \<open>d\<close> and the text after it.\<close>

definition split_once :: "char \<Rightarrow> string \<Rightarrow> string \<times> string" where
  "split_once d s = (takeWhile (\<lambda>c. c \<noteq> d) s, drop 1 (dropWhile (\<lambda>c. c \<noteq> d) s))"

text \<open>
  \<open>s.split(None, 1)\<close>: leading whitespace is dropped, the first word ends at the first whitespace
  run, and what follows that run (if anything) is the second field.
\<close>

definition split_ws1 :: "string \<Rightarrow> string list" where
  "split_ws1 s =
     (let s1 = dropWhile is_space s in
      if s1 = [] then []
      else (let w = takeWhile (\<lambda>c. \<not> is_space c) s1;
                r = dropWhile is_space (dropWhile (\<lambda>c. \<not> is_space c) s1)
            in if r = [] then [w] else [w, r]))"

text \<open>\<open>s.rsplit(d, 1)[-1]\<close>: the text after the last \<open>d\<close>, or all of \<open>s\<close> when \<open>d\<close> does not occur.\<close>

definition rsplit_last :: "char \<Rightarrow> string \<Rightarrow> string" where
  "rsplit_last d s = rev (takeWhile (\<lambda>c. c \<noteq> d) (rev s))"

text \<open>\<open>os.path.basename\<close> (posixpath): the text after the last slash.\<close>

definition basename :: "string \<Rightarrow> string" where
  "basename p = rsplit_last (CHR ''/'') p"

definition digits :: string where
  "digits = ''0123456789''"

definition isdigit :: "string \<Rightarrow> bool" where
  "isdigit s = (s \<noteq> [] \<and> list_all (\<lambda>c. c \<in> set digits) s)"

definition digit_val :: "char \<Rightarrow> nat" where
  "digit_val c = (case map_of (zip digits [0, 1, 2, 3, 4, 5, 6, 7, 8, 9]) c of Some d \<Rightarrow> d | None \<Rightarrow> 0)"

text \<open>\<open>int(s)\<close> for a string of decimal digits.\<close>

definition int_of_digits :: "string \<Rightarrow> nat" where
  "int_of_digits s = foldl (\<lambda>n c. 10 * n + digit_val c) 0 s"

fun join :: "string \<Rightarrow> string list \<Rightarrow> string" where
  "join sep [] = []"
| "join sep [x] = x"
| "join sep (x # y # ys) = x @ sep @ join sep (y # ys)"

text \<open>
  Iterating over a text file: the lines, each with its newline, the last one maybe without.
  Lines end at a line feed; no other line ending is translated.
\<close>

fun readlines :: "string \<Rightarrow> string list" where
  "readlines [] = []"
| "readlines (c # cs) =
     (if c = CHR 0x0A then [c] # readlines cs
      else (case readlines cs of [] \<Rightarrow> [[c]] | l # ls \<Rightarrow> (c # l) # ls))"

section \<open>Flag algebra: \<open>squash_flags\<close> (rifle.py, lines 45-57)\<close>

text \<open>
  \<^verbatim>\<open>exclude = ''.join(f.upper() + f.lower() for f in flags if f == f.upper())\<close>
  \<^verbatim>\<open>return ''.join(f for f in flags if f not in exclude)\<close>
\<close>

definition squash_flags :: "string \<Rightarrow> string" where
  "squash_flags flags =
     (let exclude = concat (map (\<lambda>f. [upper f, lower f]) (filter (\<lambda>f. f = upper f) flags))
      in filter (\<lambda>f. f \<notin> set exclude) flags)"

section \<open>The dispatcher \<open>Rifle\<close> (rifle.py)\<close>

subsection \<open>Values, errors, diagnostics\<close>

text \<open>
  \<open>_eval_condition2\<close> returns \<open>True\<close>, \<open>False\<close> or, when no branch of it returns, \<open>None\<close>;
  its callers only test the truth value.
\<close>

datatype pyval = PyNone | PyBool bool

fun truthy :: "pyval \<Rightarrow> bool" where
  "truthy PyNone = False"
| "truthy (PyBool b) = b"

text \<open>The truth value of an optional string: \<open>None\<close> and the empty string are false.\<close>

fun truthy_str :: "string option \<Rightarrow> bool" where
  "truthy_str None = False"
| "truthy_str (Some s) = (s \<noteq> [])"

datatype error =
    IOError string
  | IndexError
  | KeyError string
  | AttributeError string
  | ReError string

text \<open>
  What \<open>hook_logger\<close> receives, one constructor per message of the source:
  "Syntax error in <file> line <n> (<message>)", "Can not determine terminal command. ...",
  "Label '<l>' is undefined", "Method number <n> is undefined.", "No action found.".
\<close>

datatype log_msg =
    SyntaxError string nat string
  | NoTerminalCommand
  | LabelUndefined string
  | MethodUndefined int
  | NoActionFound

type_synonym condition = "string list"
type_synonym rule = "string \<times> condition list"
type_synonym match = "int \<times> string \<times> string option \<times> string"

subsection \<open>The world outside and the state of an instance\<close>

text \<open>
  What rifle asks of its collaborators, as read-only parameters:
  \<open>read_file p\<close> is the text of the file \<open>p\<close>, or \<open>None\<close> when \<open>open(p, 'r')\<close> raises;
  \<open>re_search p s\<close> is \<open>bool(re.search(p, s))\<close>, or \<open>None\<close> when \<open>p\<close> does not compile and
  \<open>re.error\<close> is raised;
  \<open>abspath\<close> is \<open>os.path.abspath\<close>; \<open>spawn_file\<close> is the output of
  \<open>spawn("file", "--mime-type", "-Lb", fname)\<close>; \<open>get_executables\<close> is the set that
  \<open>get_executables()\<close> returns; \<open>is_terminal\<close> is the result of \<open>_is_terminal()\<close>.
\<close>

record world =
  read_file :: "string \<Rightarrow> string option"
  re_search :: "string \<Rightarrow> string \<Rightarrow> bool option"
  abspath :: "string \<Rightarrow> string"
  spawn_file :: "string \<Rightarrow> string"
  get_executables :: "string set"
  is_terminal :: bool

text \<open>
  The attributes of a \<open>Rifle\<close> instance (\<open>rules\<close> is \<open>None\<close> until \<open>reload_config\<close> has set
  it), together with the two pieces of process state that the methods change: \<open>os.environ\<close>
  and the messages passed to \<open>hook_logger\<close>.
\<close>

record rstate =
  config_file :: string
  rules :: "rule list option"
  app_flags :: string
  app_label :: "string option"
  skip :: "nat option"
  mimetype :: "string option"
  environ :: "string \<rightharpoonup> string"
  logged :: "log_msg list"

text \<open>
  \<open>Rifle.__init__\<close> (lines 82-85), in a process with environment \<open>env\<close>. The attributes
  \<open>_skip\<close> and \<open>_mimetype\<close> do not exist until \<open>list_commands\<close> assigns them, which it does before
  it evaluates any condition; here they are \<open>None\<close> from the start, so the model says nothing of
  a call of the evaluator on an instance that has never listed commands.
\<close>

definition init :: "string \<Rightarrow> (string \<rightharpoonup> string) \<Rightarrow> rstate" where
  "init cf env =
     \<lparr>config_file = cf, rules = None, app_flags = [], app_label = None, skip = None,
      mimetype = None, environ = env, logged = []\<rparr>"

definition hook_logger :: "log_msg \<Rightarrow> rstate \<Rightarrow> rstate" where
  "hook_logger m s = s\<lparr>logged := logged s @ [m]\<rparr>"

definition hook_command_preprocessing :: "string \<Rightarrow> string" where
  "hook_command_preprocessing command = command"

definition hook_command_postprocessing :: "string \<Rightarrow> string" where
  "hook_command_postprocessing command = command"

subsection \<open>\<open>reload_config\<close> (lines 87-111)\<close>

text \<open>
  The body of the \<open>try\<close> for one stripped line: \<open>Inl\<close> carries the message of the exception
  raised, \<open>Inr\<close> the rule appended.
\<close>

definition parse_rule :: "string \<Rightarrow> string + rule" where
  "parse_rule line =
     (if CHR ''='' \<notin> set line then Inl ''Line without delimiter''
      else (let (tests, command) = split_once (CHR ''='') line;
                tests1 = split_char (CHR '','') tests;
                tests2 = map (\<lambda>f. split_ws1 (strip f)) tests1
            in Inr (strip command, tests2)))"

text \<open>
  The loop over the lines. A comment line or a line that is just a newline takes the
  \<open>continue\<close>, which also skips \<open>lineno += 1\<close>.
\<close>

fun reload_loop :: "string \<Rightarrow> string list \<Rightarrow> nat \<Rightarrow> rule list \<Rightarrow> log_msg list
    \<Rightarrow> rule list \<times> log_msg list" where
  "reload_loop cf [] lineno rs lg = (rs, lg)"
| "reload_loop cf (line # ls) lineno rs lg =
     (if startswith line ''#'' \<or> line = [CHR 0x0A] then reload_loop cf ls lineno rs lg
      else (case parse_rule (strip line) of
              Inr r \<Rightarrow> reload_loop cf ls (lineno + 1) (rs @ [r]) lg
            | Inl e \<Rightarrow> reload_loop cf ls (lineno + 1) rs (lg @ [SyntaxError cf lineno e])))"

definition reload_config :: "world \<Rightarrow> string option \<Rightarrow> rstate \<Rightarrow> error + rstate" where
  "reload_config w cfo s =
     (let cf = (case cfo of None \<Rightarrow> config_file s | Some c \<Rightarrow> c) in
      case read_file w cf of
        None \<Rightarrow> Inl (IOError cf)
      | Some text \<Rightarrow>
          (let (rs, lg) = reload_loop cf (readlines text) 1 [] []
           in Inr (s\<lparr>rules := Some rs, logged := logged s @ lg\<rparr>)))"

subsection \<open>\<open>_get_mimetype\<close> (lines 163-169)\<close>

definition get_mimetype :: "world \<Rightarrow> string \<Rightarrow> rstate \<Rightarrow> string \<times> rstate" where
  "get_mimetype w fname s =
     (let spawned = (let m = spawn_file w fname in (m, s\<lparr>mimetype := Some m\<rparr>)) in
      case mimetype s of
        None \<Rightarrow> spawned
      | Some m \<Rightarrow> if m \<noteq> [] then (m, s) else spawned)"

subsection \<open>\<open>_eval_condition2\<close> (lines 124-161) and \<open>_eval_condition\<close> (lines 113-122)\<close>

definition search_result :: "bool option \<Rightarrow> string \<Rightarrow> rstate \<Rightarrow> error + (pyval \<times> rstate)" where
  "search_result r pat s = (case r of None \<Rightarrow> Inl (ReError pat) | Some b \<Rightarrow> Inr (PyBool b, s))"

definition eval_condition2 :: "world \<Rightarrow> condition \<Rightarrow> string list \<Rightarrow> string option \<Rightarrow> rstate
    \<Rightarrow> error + (pyval \<times> rstate)" where
  "eval_condition2 w rule files label s =
     (case rule of
        [] \<Rightarrow> Inl IndexError
      | function # rest \<Rightarrow>
          (let argument = (case rest of [] \<Rightarrow> [] | a # _ \<Rightarrow> a) in
           case files of
             [] \<Rightarrow> Inr (PyBool False, s)
           | file0 # _ \<Rightarrow>
               if function = ''ext'' then
                 (let extension = rsplit_last (CHR ''.'') (basename file0)
                  in search_result (re_search w (''^'' @ argument @ ''$'') extension)
                       (''^'' @ argument @ ''$'') s)
               else if function = ''name'' then
                 search_result (re_search w argument (basename file0)) argument s
               else if function = ''path'' then
                 search_result (re_search w argument (abspath w file0)) argument s
               else if function = ''mime'' then
                 (let (m, s1) = get_mimetype w file0 s
                  in search_result (re_search w argument m) argument s1)
               else if function = ''has'' then
                 Inr (PyBool (argument \<in> get_executables w), s)
               else if function = ''terminal'' then
                 Inr (PyBool (is_terminal w), s)
               else if function = ''number'' then
                 Inr (PyBool True,
                      if isdigit argument then s\<lparr>skip := Some (int_of_digits argument)\<rparr> else s)
               else if function = ''label'' then
                 (let s1 = s\<lparr>app_label := Some argument\<rparr>
                  in if truthy_str label then Inr (PyBool (Some argument = label), s1)
                     else Inr (PyBool True, s1))
               else if function = ''flag'' then
                 Inr (PyBool True, s\<lparr>app_flags := argument\<rparr>)
               else if function = ''X'' then
                 Inr (PyBool (environ s ''DISPLAY'' \<noteq> None), s)
               else if function = ''else'' then
                 Inr (PyBool True, s)
               else Inr (PyNone, s)))"

definition eval_condition :: "world \<Rightarrow> condition \<Rightarrow> string list \<Rightarrow> string option \<Rightarrow> rstate
    \<Rightarrow> error + (pyval \<times> rstate)" where
  "eval_condition w condition files label s =
     (case condition of
        [] \<Rightarrow> Inr (PyBool True, s)
      | c0 # rest \<Rightarrow>
          if startswith c0 ''!'' then
            (let new_condition = drop 1 c0 # rest in
             case eval_condition2 w new_condition files label s of
               Inl e \<Rightarrow> Inl e
             | Inr (v, s1) \<Rightarrow> Inr (PyBool (\<not> truthy v), s1))
          else eval_condition2 w condition files label s)"

subsection \<open>\<open>_apply_flags\<close> (lines 186-205) and \<open>_build_command\<close> (lines 171-184)\<close>

definition detach_suffix :: string where
  "detach_suffix = '' > /dev/null 2> /dev/null &''"

definition apply_flags :: "world \<Rightarrow> string \<Rightarrow> string \<Rightarrow> rstate \<Rightarrow> error + (string \<times> rstate)" where
  "apply_flags w action flags s =
     (let action1 = (if CHR ''r'' \<in> set flags then ''sudo '' @ action else action) in
      case (if CHR ''t'' \<in> set flags then
              (if environ s ''TERMCMD'' = None then
                 (case environ s ''TERM'' of
                    None \<Rightarrow> Inl (KeyError ''TERM'')
                  | Some term \<Rightarrow>
                      (let term1 = (if startswith term ''rxvt-unicode'' then ''urxvt'' else term);
                           s1 = (if term1 \<notin> get_executables w
                                 then hook_logger NoTerminalCommand s else s)
                       in Inr (''$TERMCMD -e '' @ action1,
                               s1\<lparr>environ := (environ s1)(''TERMCMD'' \<mapsto> term1)\<rparr>)))
               else Inr (''$TERMCMD -e '' @ action1, s))
            else Inr (action1, s)) of
        Inl e \<Rightarrow> Inl e
      | Inr (action2, s2) \<Rightarrow>
          Inr (if CHR ''f'' \<in> set flags then
                 (if ''setsid'' \<in> get_executables w
                  then ''setsid '' @ action2 @ detach_suffix
                  else ''nohup '' @ action2 @ detach_suffix)
               else action2, s2))"

text \<open>\<open>f.replace("'", "'\''")\<close>: every single quote becomes quote, backslash, quote, quote.\<close>

definition escape_quotes :: "string \<Rightarrow> string" where
  "escape_quotes f =
     concat (map (\<lambda>c. if c = CHR 0x27 then [CHR 0x27, CHR 0x5C, CHR 0x27, CHR 0x27] else [c]) f)"

text \<open>
  The argument \<open>flags\<close> is \<open>Some\<close> of a string when \<open>isinstance(flags, str)\<close> holds and
  \<open>None\<close> otherwise.
\<close>

definition build_command :: "world \<Rightarrow> string list \<Rightarrow> string \<Rightarrow> string option \<Rightarrow> rstate
    \<Rightarrow> error + (string \<times> rstate)" where
  "build_command w files action flags s =
     (let s1 = (case flags of Some f \<Rightarrow> s\<lparr>app_flags := app_flags s @ f\<rparr> | None \<Rightarrow> s);
          s2 = s1\<lparr>app_flags := squash_flags (app_flags s1)\<rparr>;
          flags1 = app_flags s2;
          filenames = join [CHR 0x27, CHR '' '', CHR 0x27]
                        (map escape_quotes (filter (\<lambda>f. CHR 0x00 \<notin> set f) files));
          command = ''set -- '' @ [CHR 0x27] @ filenames @ [CHR 0x27] @ [CHR 0x0A]
      in case apply_flags w action flags1 s2 of
           Inl e \<Rightarrow> Inl e
         | Inr (action1, s3) \<Rightarrow> Inr (command @ action1, s3))"

subsection \<open>\<open>list_commands\<close> (lines 207-230)\<close>

text \<open>
  The inner \<open>for test in tests\<close>: \<open>True\<close> when the loop ends without \<open>break\<close> (its \<open>else\<close>
  branch runs), \<open>False\<close> when a condition was false. The state keeps what the conditions
  evaluated so far have written.
\<close>

fun eval_tests :: "world \<Rightarrow> condition list \<Rightarrow> string list \<Rightarrow> rstate \<Rightarrow> error + (bool \<times> rstate)" where
  "eval_tests w [] files s = Inr (True, s)"
| "eval_tests w (test # tests) files s =
     (case eval_condition w test files None s of
        Inl e \<Rightarrow> Inl e
      | Inr (v, s1) \<Rightarrow> if \<not> truthy v then Inr (False, s1) else eval_tests w tests files s1)"

definition reset :: "rstate \<Rightarrow> rstate" where
  "reset s = s\<lparr>skip := None, app_flags := [], app_label := None\<rparr>"

text \<open>
  The generator, run to its end: the tuples it yields, each with the state of the instance at
  that \<open>yield\<close>, and how it ends (the final state, or the exception an evaluation raised).
  A consumer that stops at some tuple has seen exactly the state paired with it.
\<close>

fun list_commands_loop :: "world \<Rightarrow> rule list \<Rightarrow> string list \<Rightarrow> int \<Rightarrow> rstate
    \<Rightarrow> (match \<times> rstate) list \<times> (error + rstate)" where
  "list_commands_loop w [] files count s = ([], Inr s)"
| "list_commands_loop w ((cmd, tests) # rs) files count s =
     (case eval_tests w tests files (reset s) of
        Inl e \<Rightarrow> ([], Inl e)
      | Inr (ok, s1) \<Rightarrow>
          if ok then
            (let count1 = (case skip s1 of None \<Rightarrow> count + 1 | Some n \<Rightarrow> int n);
                 (ys, fin) = list_commands_loop w rs files count1 s1
             in (((count1, cmd, app_label s1, app_flags s1), s1) # ys, fin))
          else list_commands_loop w rs files count s1)"

definition list_commands :: "world \<Rightarrow> string list \<Rightarrow> string option \<Rightarrow> rstate
    \<Rightarrow> (match \<times> rstate) list \<times> (error + rstate)" where
  "list_commands w files mt s =
     (let s0 = s\<lparr>mimetype := mt\<rparr> in
      case rules s0 of
        None \<Rightarrow> ([], Inl (AttributeError ''rules''))
      | Some rs \<Rightarrow> list_commands_loop w rs files (- 1) s0)"

subsection \<open>\<open>execute\<close> (lines 232-284)\<close>

text \<open>
  The \<open>for count, cmd, lbl, flags in self.list_commands(...)\<close> loop. Its targets include
  \<open>flags\<close>, the name of the parameter that holds the caller's flags: each tuple drawn rebinds
  it to the flags of that tuple. \<open>Selected\<close> is the \<open>break\<close>, with the tuple, the state then and
  \<open>found_at_least_one\<close>; \<open>Exhausted\<close> is the end of the tuples, with \<open>found_at_least_one\<close> and
  the value \<open>flags\<close> has by then.
\<close>

datatype selection = Selected match rstate bool | Exhausted bool "string option"

fun select_command :: "int \<Rightarrow> string option \<Rightarrow> (match \<times> rstate) list \<Rightarrow> bool \<Rightarrow> string option
    \<Rightarrow> selection" where
  "select_command number label [] found flags = Exhausted found flags"
| "select_command number label (((count, cmd, lbl, flags1), s) # ys) found flags =
     (if (truthy_str label \<and> label = lbl) \<or> (\<not> truthy_str label \<and> count = number)
      then Selected (count, cmd, lbl, flags1) s found
      else select_command number label ys True (Some flags1))"

text \<open>
  Lines 248-262: the command, if one was determined, \<open>found_at_least_one\<close>, and the state.
  The exception that ends the generator is raised only if the loop gets that far.
\<close>

definition determine_command :: "world \<Rightarrow> string list \<Rightarrow> int \<Rightarrow> string option \<Rightarrow> string option
    \<Rightarrow> string option \<Rightarrow> rstate \<Rightarrow> error + (string option \<times> bool \<times> rstate)" where
  "determine_command w files number label flags mt s =
     (case list_commands w files mt s of (ys, fin) \<Rightarrow>
        (case select_command number label ys False flags of
           Selected (count, cmd, lbl, flags1) s1 found \<Rightarrow>
             (case build_command w files (hook_command_preprocessing cmd) (Some flags1) s1 of
                Inl e \<Rightarrow> Inl e
              | Inr (command, s2) \<Rightarrow> Inr (Some command, found, s2))
         | Exhausted found flags1 \<Rightarrow>
             (case fin of
                Inl e \<Rightarrow> Inl e
              | Inr s1 \<Rightarrow>
                  (case label of
                     Some l \<Rightarrow>
                       if l \<noteq> [] \<and> l \<in> get_executables w then
                         (case build_command w files
                                 (l @ '' -- '' @ [CHR 0x22] @ ''$@'' @ [CHR 0x22]) flags1 s1 of
                            Inl e \<Rightarrow> Inl e
                          | Inr (command, s2) \<Rightarrow> Inr (Some command, found, s2))
                       else Inr (None, found, s1)
                   | None \<Rightarrow> Inr (None, found, s1)))))"

definition DEFAULT_PAGER :: string where
  "DEFAULT_PAGER = ''less''"

definition DEFAULT_EDITOR :: string where
  "DEFAULT_EDITOR = ''nano''"

definition setdefault :: "string \<Rightarrow> string \<Rightarrow> rstate \<Rightarrow> rstate" where
  "setdefault k v s = (if environ s k = None then s\<lparr>environ := (environ s)(k \<mapsto> v)\<rparr> else s)"

text \<open>
  \<open>execute\<close> up to the call of \<open>Popen\<close>: the command string handed to the shell (\<open>None\<close> when
  nothing is run) and the state then.
\<close>

definition execute :: "world \<Rightarrow> string list \<Rightarrow> int \<Rightarrow> string option \<Rightarrow> string option
    \<Rightarrow> string option \<Rightarrow> rstate \<Rightarrow> error + (string option \<times> rstate)" where
  "execute w files number label flags mt s =
     (case determine_command w files number label flags mt s of
        Inl e \<Rightarrow> Inl e
      | Inr (None, found, s1) \<Rightarrow>
          Inr (None,
               if found then
                 (case label of
                    Some l \<Rightarrow> if l \<noteq> [] then hook_logger (LabelUndefined l) s1
                              else hook_logger (MethodUndefined number) s1
                  | None \<Rightarrow> hook_logger (MethodUndefined number) s1)
               else hook_logger NoActionFound s1)
      | Inr (Some command, found, s1) \<Rightarrow>
          Inr (Some (hook_command_postprocessing command),
               setdefault ''EDITOR'' DEFAULT_EDITOR (setdefault ''PAGER'' DEFAULT_PAGER s1)))"

section \<open>A model of \<open>re.search\<close> and \<open>re.fullmatch\<close> on a fragment of patterns\<close>

text \<open>
  The regular expression library is not part of rifle. For patterns built only from literal
  characters, \<open>^\<close>, \<open>$\<close> and \<open>|\<close> its behaviour is simple enough to write down: \<open>|\<close> binds
  weakest and separates alternatives; \<open>^\<close> matches at the start of the subject; \<open>$\<close> matches
  at its end and just before a newline that ends it; \<open>search\<close> succeeds when some alternative
  matches at some position, \<open>fullmatch\<close> when some alternative matches all of the subject.
  A pattern with any other special character is outside the fragment, and the model gives
  \<open>None\<close> for it, which says nothing about what the library does with such a pattern; the
  statements below use patterns of the fragment only.
\<close>

datatype atom = Bol | Eol | Lit char

definition parse_alternative :: "string \<Rightarrow> atom list" where
  "parse_alternative p =
     map (\<lambda>c. if c = CHR ''^'' then Bol else if c = CHR ''$'' then Eol else Lit c) p"

definition parse_pattern :: "string \<Rightarrow> atom list list" where
  "parse_pattern p = map parse_alternative (split_char (CHR ''|'') p)"

text \<open>Matching a sequence of atoms from position \<open>i\<close> of the subject: the position where it ends.\<close>

fun match_atoms :: "atom list \<Rightarrow> string \<Rightarrow> nat \<Rightarrow> nat option" where
  "match_atoms [] subject i = Some i"
| "match_atoms (Bol # as) subject i = (if i = 0 then match_atoms as subject i else None)"
| "match_atoms (Eol # as) subject i =
     (if i = length subject \<or> (Suc i = length subject \<and> subject ! i = CHR 0x0A)
      then match_atoms as subject i else None)"
| "match_atoms (Lit c # as) subject i =
     (if i < length subject \<and> subject ! i = c then match_atoms as subject (Suc i) else None)"

definition outside_fragment :: string where
  "outside_fragment = [CHR ''.'', CHR ''*'', CHR ''+'', CHR ''?'', CHR ''{'', CHR ''}'',
                       CHR ''['', CHR '']'', CHR ''('', CHR '')'', CHR 0x5C]"

definition in_fragment :: "string \<Rightarrow> bool" where
  "in_fragment p = list_all (\<lambda>c. c \<notin> set outside_fragment) p"

definition py_re_search :: "string \<Rightarrow> string \<Rightarrow> bool option" where
  "py_re_search p subject =
     (if in_fragment p then
        Some (list_ex (\<lambda>i. list_ex (\<lambda>alt. match_atoms alt subject i \<noteq> None) (parse_pattern p))
                [0..<Suc (length subject)])
      else None)"

definition py_re_fullmatch :: "string \<Rightarrow> string \<Rightarrow> bool option" where
  "py_re_fullmatch p subject =
     (if in_fragment p then
        Some (list_ex (\<lambda>alt. match_atoms alt subject 0 = Some (length subject)) (parse_pattern p))
      else None)"

section \<open>The tag store \<open>Tags\<close> (tags.py)\<close>

text \<open>
  The file named by \<open>self._filename\<close>: whether its directory exists, and its text if the file
  exists. Opening it for reading fails when the file does not exist; opening it for writing
  fails when the directory does not exist, and otherwise leaves the file empty. Both failures
  are the \<open>OSError\<close> that \<open>sync\<close> and \<open>dump\<close> catch.
\<close>

record tagfile =
  dir_exists :: bool
  content :: "string option"

text \<open>
  The attribute \<open>self.tags\<close>: \<open>None\<close> while no \<open>sync\<close> has assigned it, when reading it raises
  \<open>AttributeError\<close>.
\<close>

type_synonym tags = "string set option"

text \<open>\<open>_parse\<close> (lines 64-68).\<close>

definition parse :: "string \<Rightarrow> string set" where
  "parse text = set (map strip (readlines text))"

text \<open>
  \<open>_compile\<close> (lines 60-62). A Python set is iterated in an order the language does not fix;
  \<open>order\<close> is that order.
\<close>

definition compile :: "(string set \<Rightarrow> string list) \<Rightarrow> string set \<Rightarrow> string" where
  "compile order T = concat (map (\<lambda>line. line @ [CHR 0x0A]) (order T))"

definition sync :: "tagfile \<Rightarrow> tags \<Rightarrow> tags" where
  "sync fs t = (case content fs of None \<Rightarrow> t | Some text \<Rightarrow> Some (parse text))"

definition dump :: "(string set \<Rightarrow> string list) \<Rightarrow> tagfile \<Rightarrow> tags \<Rightarrow> error + tagfile" where
  "dump order fs t =
     (if \<not> dir_exists fs then Inr fs
      else (case t of
              None \<Rightarrow> Inl (AttributeError ''tags'')
            | Some T \<Rightarrow> Inr (fs\<lparr>content := Some (compile order T)\<rparr>)))"

text \<open>\<open>Tags.__init__\<close> (lines 2-10).\<close>

definition Tags :: "tagfile \<Rightarrow> tagfile \<times> tags" where
  "Tags fs =
     (let fs1 = (if dir_exists fs \<and> content fs = None then fs\<lparr>content := Some []\<rparr> else fs)
      in (fs1, sync fs1 None))"

text \<open>The loops over \<open>items\<close> of \<open>add\<close>, \<open>remove\<close> and \<open>toggle\<close>.\<close>

fun add_items :: "string list \<Rightarrow> tags \<Rightarrow> error + tags" where
  "add_items [] t = Inr t"
| "add_items (item # items) t =
     (case t of
        None \<Rightarrow> Inl (AttributeError ''tags'')
      | Some T \<Rightarrow> add_items items (Some (insert item T)))"

fun remove_items :: "string list \<Rightarrow> tags \<Rightarrow> error + tags" where
  "remove_items [] t = Inr t"
| "remove_items (item # items) t =
     (case t of
        None \<Rightarrow> Inl (AttributeError ''tags'')
      | Some T \<Rightarrow> remove_items items (Some (T - {item})))"

fun toggle_items :: "string list \<Rightarrow> tags \<Rightarrow> error + tags" where
  "toggle_items [] t = Inr t"
| "toggle_items (item # items) t =
     (case t of
        None \<Rightarrow> Inl (AttributeError ''tags'')
      | Some T \<Rightarrow>
          if item \<in> T then toggle_items items (Some (T - {item}))
          else toggle_items items (Some (insert item T)))"

text \<open>\<open>sync\<close>, the loop, \<open>dump\<close>: the shape of the three mutating methods.\<close>

definition mutate :: "(string list \<Rightarrow> tags \<Rightarrow> error + tags) \<Rightarrow> (string set \<Rightarrow> string list)
    \<Rightarrow> string list \<Rightarrow> tagfile \<times> tags \<Rightarrow> error + (tagfile \<times> tags)" where
  "mutate loop order items ft =
     (case ft of (fs, t) \<Rightarrow>
        (case loop items (sync fs t) of
           Inl e \<Rightarrow> Inl e
         | Inr t1 \<Rightarrow>
             (case dump order fs t1 of
                Inl e \<Rightarrow> Inl e
              | Inr fs1 \<Rightarrow> Inr (fs1, t1))))"

definition add :: "(string set \<Rightarrow> string list) \<Rightarrow> string list \<Rightarrow> tagfile \<times> tags
    \<Rightarrow> error + (tagfile \<times> tags)" where
  "add order items ft = mutate add_items order items ft"

definition remove :: "(string set \<Rightarrow> string list) \<Rightarrow> string list \<Rightarrow> tagfile \<times> tags
    \<Rightarrow> error + (tagfile \<times> tags)" where
  "remove order items ft = mutate remove_items order items ft"

definition toggle :: "(string set \<Rightarrow> string list) \<Rightarrow> string list \<Rightarrow> tagfile \<times> tags
    \<Rightarrow> error + (tagfile \<times> tags)" where
  "toggle order items ft = mutate toggle_items order items ft"

section \<open>Vocabulary of the statements and concrete inputs\<close>

text \<open>The eleven function names that \<open>_eval_condition2\<close> compares against.\<close>

definition recognized_functions :: "string list" where
  "recognized_functions = [''ext'', ''name'', ''path'', ''mime'', ''has'', ''terminal'', ''number'',
     ''label'', ''flag'', ''X'', ''else'']"

text \<open>
  The lines that \<open>reload_config\<close> does not skip, the rules it appends for them and the messages
  it logs for them, written without the loop: \<open>enumerate n\<close> pairs each such line with \<open>n\<close> plus
  its position among them.
\<close>

definition active_lines :: "string list \<Rightarrow> string list" where
  "active_lines ls = filter (\<lambda>l. \<not> (startswith l ''#'' \<or> l = [CHR 0x0A])) ls"

definition loaded_rules :: "string list \<Rightarrow> rule list" where
  "loaded_rules ls =
     concat (map (\<lambda>l. case parse_rule (strip l) of Inr r \<Rightarrow> [r] | Inl e \<Rightarrow> []) ls)"

definition diagnostics :: "string \<Rightarrow> nat \<Rightarrow> string list \<Rightarrow> log_msg list" where
  "diagnostics cf n ls =
     concat (map (\<lambda>(i, l). case parse_rule (strip l) of
                              Inr r \<Rightarrow> []
                            | Inl e \<Rightarrow> [SyntaxError cf i e]) (enumerate n ls))"




text \<open>A token that a tag file stores and gives back unchanged: no newline in it, no whitespace around it.\<close>

definition clean :: "string \<Rightarrow> bool" where
  "clean t = (CHR 0x0A \<notin> set t \<and> strip t = t)"

text \<open>A tag file that exists, with the given text.\<close>

definition tag_file :: "string \<Rightarrow> tagfile" where
  "tag_file text = \<lparr>dir_exists = True, content = Some text\<rparr>"

text \<open>
  A world with no executables, no terminal and no readable file, whose regular expressions are
  the fragment above; and a fresh instance in a process with an empty environment.
\<close>

definition world0 :: world where
  "world0 = \<lparr>read_file = (\<lambda>p. None), re_search = py_re_search, abspath = (\<lambda>p. p),
             spawn_file = (\<lambda>f. ''text/plain''), get_executables = {}, is_terminal = False\<rparr>"

definition state0 :: rstate where
  "state0 = init ''rifle.conf'' Map.empty"

text \<open>The example of the docstring of \<open>execute\<close>: a rule whose flags are "pw".\<close>

definition docstring_rules :: "rule list" where
  "docstring_rules = [(''cmd'', [[''flag'', ''pw'']])]"

definition state1 :: rstate where
  "state1 = state0\<lparr>rules := Some docstring_rules\<rparr>"

definition state2 :: rstate where
  "state2 = state1\<lparr>app_flags := ''pw''\<rparr>"



text \<open>A config file whose only rule uses a function name that rifle does not know.\<close>

definition unknown_config :: string where
  "unknown_config = ''frobnicate x = cmd'' @ [CHR 0x0A]"

text \<open>A config file with a comment on line 1, a line without "=" on line 2 and a rule on line 3.\<close>

definition comment_config :: string where
  "comment_config =
     ''# comment'' @ [CHR 0x0A] @ ''bad line'' @ [CHR 0x0A] @ ''else = cmd'' @ [CHR 0x0A]"

section \<open>Properties of the flag algebra\<close>

lemmas case_tables = upper_def lower_def ascii_lowercase_def ascii_uppercase_def

lemma squash_flags_survivor: "f \<in> set (squash_flags S) \<Longrightarrow> f \<noteq> upper f"
  by (auto simp: squash_flags_def)

lemma squash_flags_no_upper: "filter (\<lambda>f. f = upper f) (squash_flags S) = []"
  using squash_flags_survivor [of _ S] by (auto simp: filter_empty_conv)

lemma squash_flags_idem: "squash_flags (squash_flags S) = squash_flags S"
proof -
  have "squash_flags (squash_flags S) = filter (\<lambda>f. f \<notin> set []) (squash_flags S)"
    unfolding squash_flags_def [of "squash_flags S"] squash_flags_no_upper by simp
  then show ?thesis by simp
qed

lemma squash_flags_subseq: "subseq (squash_flags S) S"
  by (simp add: squash_flags_def)

text \<open>
  C8. \<open>squash_flags\<close> is idempotent on every string; it maps "abc" to "abc", "abcC" to "ab"
  and "CabcAd" to "bd"; and its result is a subsequence of its input, so the characters that
  survive keep the order they had.
\<close>

theorem squash_flags_idempotent_examples:
  "squash_flags (squash_flags S) = squash_flags S
   \<and> squash_flags ''abc'' = ''abc''
   \<and> squash_flags ''abcC'' = ''ab''
   \<and> squash_flags ''CabcAd'' = ''bd''
   \<and> subseq (squash_flags S) S"
proof -
  have e1: "squash_flags ''abc'' = ''abc''"
    by (simp add: squash_flags_def case_tables)
  have e2: "squash_flags ''abcC'' = ''ab''"
    by (simp add: squash_flags_def case_tables)
  have e3: "squash_flags ''CabcAd'' = ''bd''"
    by (simp add: squash_flags_def case_tables)
  show ?thesis
    using squash_flags_idem [of S] squash_flags_subseq [of S] e1 e2 e3 by simp
qed

section \<open>Properties of the condition evaluator\<close>

lemmas string_prims = strip_def lstrip_def rstrip_def is_space_def startswith_def split_once_def
  split_ws1_def rsplit_last_def basename_def

text \<open>
  C10. With an empty file list, every non-empty condition, whatever its function name and its
  argument, evaluates to false when its name has no leading "!" and to true when it has one,
  and the state (flags, label, skip-target and all the rest) comes back as it was.
\<close>

theorem empty_files_decide_every_condition:
  "eval_condition w (c0 # rest) [] label s = Inr (PyBool (startswith c0 ''!''), s)"
  by (simp add: eval_condition_def eval_condition2_def)

text \<open>
  C5, as the code has it. A non-negated \<open>else\<close> condition is true exactly when the file list is
  not empty, and leaves the state as it was: the guard on the empty file list comes before
  the comparison with "else".
\<close>

theorem else_true_iff_files:
  "eval_condition w (''else'' # rest) files label s = Inr (PyBool (files \<noteq> []), s)"
  by (cases files) (simp_all add: eval_condition_def eval_condition2_def startswith_def)

text \<open>C5 as stated fails on the empty file list: there \<open>else\<close> is false.\<close>

theorem else_false_on_empty_files:
  "eval_condition world0 [''else''] [] None state0 = Inr (PyBool False, state0)"
  by (simp add: eval_condition_def eval_condition2_def startswith_def)

text \<open>
  C6, as the code has it. For a condition whose function name does not itself begin with "!",
  evaluating its negated form (the name prefixed with "!") gives the negation of the truth
  value of evaluating the condition itself, and the same state: whatever the inner evaluation
  wrote to the flags, the label or the skip-target is still written. An exception of the inner
  evaluation is raised by both. (\<open>_eval_condition\<close> strips one "!" only, so the statement does
  not extend to a name that already begins with "!".)
\<close>

theorem negation_inverts_truth_value:
  "\<not> startswith c0 ''!'' \<Longrightarrow>
   eval_condition w ((''!'' @ c0) # rest) files label s =
     (case eval_condition w (c0 # rest) files label s of
        Inl e \<Rightarrow> Inl e
      | Inr (v, s1) \<Rightarrow> Inr (PyBool (\<not> truthy v), s1))"
  by (simp add: eval_condition_def startswith_def)

theorem negation_inverts_truth_value_witness:
  "eval_condition world0 [''!flag'', ''f''] [''a.txt''] None state0
     = Inr (PyBool False, state0\<lparr>app_flags := ''f''\<rparr>)
   \<and> eval_condition world0 [''flag'', ''f''] [''a.txt''] None state0
     = Inr (PyBool True, state0\<lparr>app_flags := ''f''\<rparr>)"
proof -
  have h: "\<not> startswith ''flag'' ''!''"
    by (simp add: startswith_def)
  have e: "eval_condition world0 [''flag'', ''f''] [''a.txt''] None state0
             = Inr (PyBool True, state0\<lparr>app_flags := ''f''\<rparr>)"
    by (simp add: eval_condition_def eval_condition2_def startswith_def)
  from negation_inverts_truth_value [OF h, of world0 "[''f'']" "[''a.txt'']" None state0] e
  show ?thesis by simp
qed

text \<open>
  C6 as stated, for every condition, fails on a condition that is itself negated. With no
  executable named "x", the condition \<open>!has x\<close> is true, and so is its negated form \<open>!!has x\<close>:
  after one "!" is stripped the name "!has" is none that \<open>_eval_condition2\<close> knows, the inner
  result is \<open>None\<close>, and its negation is true.
\<close>

theorem double_negation_not_inverted:
  "eval_condition world0 [''!has'', ''x''] [''a.txt''] None state0 = Inr (PyBool True, state0)
   \<and> eval_condition world0 [''!!has'', ''x''] [''a.txt''] None state0 = Inr (PyBool True, state0)"
  by (simp add: eval_condition_def eval_condition2_def startswith_def world0_def)

lemma unknown_eval2:
  "function \<notin> set recognized_functions \<Longrightarrow> files \<noteq> [] \<Longrightarrow>
   eval_condition2 w (function # rest) files label s = Inr (PyNone, s)"
  by (cases files) (simp_all add: eval_condition2_def recognized_functions_def)

lemma parse_rule_error: "isl (parse_rule line) = (CHR ''='' \<notin> set line)"
  by (simp add: parse_rule_def Let_def split: prod.splits)

text \<open>
  C4, at the input where the code departs from it. With the pattern "py|sh" and the file
  "x.pyc" the \<open>ext\<close> condition is true, though the extension "pyc" does not fully match
  "py|sh": the code searches for "^py|sh$", where "^" belongs to the first alternative only
  and "$" to the last.
\<close>

theorem ext_alternation_not_anchored:
  "eval_condition2 (w\<lparr>re_search := py_re_search\<rparr>) [''ext'', ''py|sh''] [''x.pyc''] label s
     = Inr (PyBool True, s)
   \<and> rsplit_last (CHR ''.'') (basename ''x.pyc'') = ''pyc''
   \<and> py_re_fullmatch ''py|sh'' ''pyc'' = Some False"
  by (simp add: eval_condition2_def search_result_def py_re_search_def py_re_fullmatch_def
      in_fragment_def outside_fragment_def parse_pattern_def parse_alternative_def string_prims)

section \<open>Properties of the config loader\<close>

lemma reload_loop_char:
  "reload_loop cf ls n rs lg =
     (rs @ loaded_rules (active_lines ls), lg @ diagnostics cf n (active_lines ls))"
proof (induction ls arbitrary: n rs lg)
  case Nil
  show ?case by (simp add: active_lines_def loaded_rules_def diagnostics_def)
next
  case (Cons line ls)
  show ?case
  proof (cases "startswith line ''#'' \<or> line = [CHR 0x0A]")
    case True
    then show ?thesis using Cons.IH [of n rs lg] by (auto simp: active_lines_def)
  next
    case False
    then have act: "active_lines (line # ls) = line # active_lines ls"
      by (simp add: active_lines_def)
    show ?thesis
    proof (cases "parse_rule (strip line)")
      case (Inl e)
      with False Cons.IH [of "n + 1" rs "lg @ [SyntaxError cf n e]"] show ?thesis
        unfolding act by (simp add: loaded_rules_def diagnostics_def enumerate_simps)
    next
      case (Inr r)
      with False Cons.IH [of "n + 1" "rs @ [r]" lg] show ?thesis
        unfolding act by (simp add: loaded_rules_def diagnostics_def enumerate_simps)
    qed
  qed
qed

text \<open>
  What loading does, for every config text that can be opened. The rules are those of the
  lines that are neither comments nor a bare newline and that parse, in file order; there is
  one message for each such line that does not parse, so loading goes on after it; and the
  number a message carries counts, from 1, only the lines that are neither comments nor bare
  newlines.
\<close>

theorem reload_config_characterisation:
  "reload_config (w\<lparr>read_file := (\<lambda>p. Some text)\<rparr>) None s =
     Inr (s\<lparr>rules := Some (loaded_rules (active_lines (readlines text))),
             logged := logged s @ diagnostics (config_file s) 1 (active_lines (readlines text))\<rparr>)"
  by (simp add: reload_config_def reload_loop_char)

lemma mem_dropWhile: "\<not> P c \<Longrightarrow> (c \<in> set (dropWhile P xs)) = (c \<in> set xs)"
  by (induction xs) auto

lemma delimiter_strip: "(CHR ''='' \<in> set (strip l)) = (CHR ''='' \<in> set l)"
proof -
  have ns: "\<not> is_space (CHR ''='')"
    by (simp add: is_space_def)
  show ?thesis
    by (simp add: strip_def lstrip_def rstrip_def mem_dropWhile [of is_space, OF ns])
qed

lemma parse_rule_Inl:
  "CHR ''='' \<notin> set l \<Longrightarrow> parse_rule (strip l) = Inl ''Line without delimiter''"
  by (simp add: parse_rule_def delimiter_strip)

lemma parse_rule_Inr: "CHR ''='' \<in> set l \<Longrightarrow> \<exists>r. parse_rule (strip l) = Inr r"
  by (simp add: parse_rule_def delimiter_strip Let_def split: prod.splits)

lemma loaded_rules_char:
  "map Inr (loaded_rules ls) =
     map (\<lambda>l. parse_rule (strip l)) (filter (\<lambda>l. CHR ''='' \<in> set l) ls)"
proof (induction ls)
  case Nil
  show ?case by (simp add: loaded_rules_def)
next
  case (Cons l ls)
  show ?case
  proof (cases "CHR ''='' \<in> set l")
    case True
    with parse_rule_Inr [of l] obtain r where "parse_rule (strip l) = Inr r" by blast
    with True Cons.IH show ?thesis by (simp add: loaded_rules_def)
  next
    case False
    with parse_rule_Inl [of l] Cons.IH show ?thesis by (simp add: loaded_rules_def)
  qed
qed

lemma diagnostics_char:
  "diagnostics cf n ls =
     map (\<lambda>(i, l). SyntaxError cf i ''Line without delimiter'')
       (filter (\<lambda>(i, l). CHR ''='' \<notin> set l) (enumerate n ls))"
proof (induction ls arbitrary: n)
  case Nil
  show ?case by (simp add: diagnostics_def)
next
  case (Cons l ls)
  have step: "diagnostics cf n (l # ls) =
      (case parse_rule (strip l) of Inr r \<Rightarrow> [] | Inl e \<Rightarrow> [SyntaxError cf n e])
      @ diagnostics cf (Suc n) ls"
    by (simp add: diagnostics_def)
  show ?case
  proof (cases "CHR ''='' \<in> set l")
    case True
    with parse_rule_Inr [of l] obtain r where "parse_rule (strip l) = Inr r" by blast
    with True Cons.IH [of "Suc n"] show ?thesis unfolding step by simp
  next
    case False
    with parse_rule_Inl [of l] Cons.IH [of "Suc n"] show ?thesis unfolding step by simp
  qed
qed

text \<open>
  C2, as the code has it. Loading a config text checks nothing but the delimiter. Of the lines
  it does not skip (those that are neither comments nor a bare newline), exactly the ones
  without "=" are diagnosed, each with the message "Line without delimiter", and every one
  with "=" is loaded, in file order, as the rule its text parses to, whatever function names
  its conditions carry; parsing a line fails exactly when it has no "=". A condition whose
  function name is none of the eleven that \<open>_eval_condition2\<close> knows is met at evaluation
  time: on a non-empty file list no branch returns, the result is \<open>None\<close>, the state is as it
  was and nothing is raised; so the condition counts as false, and as true when negated.
\<close>

theorem unrecognized_function_falls_through:
  "(\<exists>rs. reload_config (w\<lparr>read_file := (\<lambda>p. Some text)\<rparr>) None s0 =
           Inr (s0\<lparr>rules := Some rs,
                    logged := logged s0 @
                      map (\<lambda>(i, l). SyntaxError (config_file s0) i ''Line without delimiter'')
                        (filter (\<lambda>(i, l). CHR ''='' \<notin> set l)
                           (enumerate 1 (active_lines (readlines text))))\<rparr>)
         \<and> map Inr rs = map (\<lambda>l. parse_rule (strip l))
                           (filter (\<lambda>l. CHR ''='' \<in> set l) (active_lines (readlines text))))
   \<and> isl (parse_rule line) = (CHR ''='' \<notin> set line)
   \<and> (function \<notin> set recognized_functions \<and> \<not> startswith function ''!'' \<and> files \<noteq> [] \<longrightarrow>
        eval_condition2 w (function # rest) files label s = Inr (PyNone, s)
      \<and> eval_condition w (function # rest) files label s = Inr (PyNone, s)
      \<and> eval_condition w ((''!'' @ function) # rest) files label s = Inr (PyBool True, s))"
proof -
  have load: "\<exists>rs. reload_config (w\<lparr>read_file := (\<lambda>p. Some text)\<rparr>) None s0 =
           Inr (s0\<lparr>rules := Some rs,
                    logged := logged s0 @
                      map (\<lambda>(i, l). SyntaxError (config_file s0) i ''Line without delimiter'')
                        (filter (\<lambda>(i, l). CHR ''='' \<notin> set l)
                           (enumerate 1 (active_lines (readlines text))))\<rparr>)
         \<and> map Inr rs = map (\<lambda>l. parse_rule (strip l))
                           (filter (\<lambda>l. CHR ''='' \<in> set l) (active_lines (readlines text)))"
    by (rule exI [of _ "loaded_rules (active_lines (readlines text))"])
       (simp add: reload_config_def reload_loop_char loaded_rules_char diagnostics_char)
  have eval: "function \<notin> set recognized_functions \<and> \<not> startswith function ''!'' \<and> files \<noteq> [] \<longrightarrow>
        eval_condition2 w (function # rest) files label s = Inr (PyNone, s)
      \<and> eval_condition w (function # rest) files label s = Inr (PyNone, s)
      \<and> eval_condition w ((''!'' @ function) # rest) files label s = Inr (PyBool True, s)"
    using unknown_eval2 [of "function" files w rest label s]
    by (simp add: eval_condition_def startswith_def)
  from load parse_rule_error [of line] eval show ?thesis by blast
qed

theorem unrecognized_function_falls_through_witness:
  "reload_config (world0\<lparr>read_file := (\<lambda>p. Some unknown_config)\<rparr>) None state0
     = Inr (state0\<lparr>rules := Some [(''cmd'', [[''frobnicate'', ''x'']])], logged := []\<rparr>)
   \<and> \<not> isl (parse_rule ''frobnicate x = cmd'')
   \<and> eval_condition2 world0 [''frobnicate'', ''x''] [''a.txt''] None state0 = Inr (PyNone, state0)
   \<and> eval_condition world0 [''frobnicate'', ''x''] [''a.txt''] None state0 = Inr (PyNone, state0)
   \<and> eval_condition world0 [''!frobnicate'', ''x''] [''a.txt''] None state0
        = Inr (PyBool True, state0)"
proof -
  note inst = unrecognized_function_falls_through
          [of unknown_config world0 state0 "''frobnicate x = cmd''" "''frobnicate''"
              "[''a.txt'']" "[''x'']" None state0]
  have al: "active_lines (readlines unknown_config) = [unknown_config]"
    by (simp add: unknown_config_def active_lines_def startswith_def)
  have eq: "CHR ''='' \<in> set unknown_config"
    by (simp add: unknown_config_def)
  have pr: "parse_rule (strip unknown_config) = Inr (''cmd'', [[''frobnicate'', ''x'']])"
    by (simp add: unknown_config_def parse_rule_def string_prims)
  have lg: "logged state0 = []"
    by (simp add: state0_def init_def)
  have "\<exists>rs. reload_config (world0\<lparr>read_file := (\<lambda>p. Some unknown_config)\<rparr>) None state0 =
           Inr (state0\<lparr>rules := Some rs, logged := []\<rparr>)
         \<and> map Inr rs = [Inr (''cmd'', [[''frobnicate'', ''x'']]) :: string + rule]"
    using inst [THEN conjunct1] unfolding al by (simp add: eq pr lg)
  then obtain rs where
    r1: "reload_config (world0\<lparr>read_file := (\<lambda>p. Some unknown_config)\<rparr>) None state0 =
           Inr (state0\<lparr>rules := Some rs, logged := []\<rparr>)"
    and r2: "map Inr rs = [Inr (''cmd'', [[''frobnicate'', ''x'']]) :: string + rule]"
    by (elim exE conjE)
  from r2 have "rs = [(''cmd'', [[''frobnicate'', ''x'']])]"
    by (cases rs) auto
  with r1 have load: "reload_config (world0\<lparr>read_file := (\<lambda>p. Some unknown_config)\<rparr>) None state0
     = Inr (state0\<lparr>rules := Some [(''cmd'', [[''frobnicate'', ''x'']])], logged := []\<rparr>)"
    by simp
  have eval: "\<not> isl (parse_rule ''frobnicate x = cmd'')
   \<and> eval_condition2 world0 [''frobnicate'', ''x''] [''a.txt''] None state0 = Inr (PyNone, state0)
   \<and> eval_condition world0 [''frobnicate'', ''x''] [''a.txt''] None state0 = Inr (PyNone, state0)
   \<and> eval_condition world0 [''!frobnicate'', ''x''] [''a.txt''] None state0
        = Inr (PyBool True, state0)"
    using inst [THEN conjunct2] by (simp add: recognized_functions_def startswith_def)
  from load eval show ?thesis by blast
qed

text \<open>
  C2 as stated fails: a config file whose rule uses the unknown function \<open>frobnicate\<close> loads
  with that rule and without a single diagnostic, and evaluating the loaded condition meets
  the unknown name and returns \<open>None\<close>.
\<close>

theorem unknown_function_loads_silently:
  "reload_config (world0\<lparr>read_file := (\<lambda>p. Some unknown_config)\<rparr>) None state0
     = Inr (state0\<lparr>rules := Some [(''cmd'', [[''frobnicate'', ''x'']])]\<rparr>)
   \<and> logged state0 = []
   \<and> eval_condition world0 [''frobnicate'', ''x''] [''a.txt''] None state0 = Inr (PyNone, state0)"
proof -
  have rl: "readlines unknown_config = [unknown_config]"
    by (simp add: unknown_config_def)
  have pr: "parse_rule (strip unknown_config) = Inr (''cmd'', [[''frobnicate'', ''x'']])"
    by (simp add: unknown_config_def parse_rule_def string_prims)
  have sw: "\<not> startswith unknown_config ''#''" "unknown_config \<noteq> [CHR 0x0A]"
    by (simp_all add: unknown_config_def startswith_def)
  have "reload_loop ''rifle.conf'' (readlines unknown_config) 1 [] []
          = ([(''cmd'', [[''frobnicate'', ''x'']])], [])"
    unfolding rl by (simp add: sw pr)
  then have a: "reload_config (world0\<lparr>read_file := (\<lambda>p. Some unknown_config)\<rparr>) None state0
     = Inr (state0\<lparr>rules := Some [(''cmd'', [[''frobnicate'', ''x'']])]\<rparr>)"
    by (simp add: reload_config_def state0_def init_def)
  have b: "eval_condition world0 [''frobnicate'', ''x''] [''a.txt''] None state0 = Inr (PyNone, state0)"
    by (simp add: eval_condition_def eval_condition2_def startswith_def)
  have c: "logged state0 = []"
    by (simp add: state0_def init_def)
  from a b c show ?thesis by simp
qed

text \<open>
  C3, at the input where the code departs from it. The malformed line is line 2 of the file,
  after a comment; loading keeps the one valid rule and emits one diagnostic, but the
  diagnostic carries line number 1: the \<open>continue\<close> taken for the comment skips the increment
  of the line counter.
\<close>

theorem diagnostic_line_number_skips_comments:
  "reload_config (world0\<lparr>read_file := (\<lambda>p. Some comment_config)\<rparr>) None state0
     = Inr (state0\<lparr>rules := Some [(''cmd'', [[''else'']])],
                    logged := [SyntaxError ''rifle.conf'' 1 ''Line without delimiter'']\<rparr>)
   \<and> readlines comment_config ! 1 = ''bad line'' @ [CHR 0x0A]"
proof -
  have rl: "readlines comment_config =
      [''# comment'' @ [CHR 0x0A], ''bad line'' @ [CHR 0x0A], ''else = cmd'' @ [CHR 0x0A]]"
    by (simp add: comment_config_def)
  have p1: "parse_rule (strip (''bad line'' @ [CHR 0x0A])) = Inl ''Line without delimiter''"
    by (simp add: parse_rule_def string_prims)
  have p2: "parse_rule (strip (''else = cmd'' @ [CHR 0x0A])) = Inr (''cmd'', [[''else'']])"
    by (simp add: parse_rule_def string_prims)
  have "reload_loop ''rifle.conf'' (readlines comment_config) 1 [] []
      = ([(''cmd'', [[''else'']])], [SyntaxError ''rifle.conf'' 1 ''Line without delimiter''])"
    unfolding rl using p1 p2 by (simp add: startswith_def)
  then have a: "reload_config (world0\<lparr>read_file := (\<lambda>p. Some comment_config)\<rparr>) None state0
     = Inr (state0\<lparr>rules := Some [(''cmd'', [[''else'']])],
                    logged := [SyntaxError ''rifle.conf'' 1 ''Line without delimiter'']\<rparr>)"
    by (simp add: reload_config_def state0_def init_def)
  show ?thesis using a by (simp add: rl)
qed

section \<open>Properties of the rule selector\<close>


lemma loop_step_ok:
  "eval_tests w tests files (reset s) = Inr (True, s1) \<Longrightarrow>
   c1 = (case skip s1 of None \<Rightarrow> count + 1 | Some n \<Rightarrow> int n) \<Longrightarrow>
   list_commands_loop w ((cmd, tests) # rs) files count s =
     (((c1, cmd, app_label s1, app_flags s1), s1) # fst (list_commands_loop w rs files c1 s1),
      snd (list_commands_loop w rs files c1 s1))"
  by (simp add: Let_def split: prod.splits)

lemma loop_step_fail:
  "eval_tests w tests files (reset s) = Inr (False, s1) \<Longrightarrow>
   list_commands_loop w ((cmd, tests) # rs) files count s = list_commands_loop w rs files count s1"
  by simp

lemma loop_step_error:
  "eval_tests w tests files (reset s) = Inl e \<Longrightarrow>
   list_commands_loop w ((cmd, tests) # rs) files count s = ([], Inl e)"
  by simp



















section \<open>Properties of the dispatch driver\<close>

lemma docstring_eval:
  "eval_tests w [[''flag'', ''pw'']] [''a''] s = Inr (True, s\<lparr>app_flags := ''pw''\<rparr>)"
  by (simp add: eval_condition_def eval_condition2_def startswith_def)

lemma state2_fields:
  "skip state2 = None" "app_label state2 = None" "app_flags state2 = ''pw''"
  "reset (state1\<lparr>mimetype := None\<rparr>) = state1" "rules (state1\<lparr>mimetype := None\<rparr>) = Some docstring_rules"
  by (simp_all add: reset_def state2_def state1_def state0_def init_def)

lemma docstring_listed:
  "list_commands w [''a''] None state1 = ([((0, ''cmd'', None, ''pw''), state2)], Inr state2)"
proof -
  have "eval_tests w [[''flag'', ''pw'']] [''a''] (reset (state1\<lparr>mimetype := None\<rparr>)) = Inr (True, state2)"
    unfolding state2_fields docstring_eval state2_def ..
  from loop_step_ok [OF this, of 0 "- 1" "''cmd''" "[]"] show ?thesis
    by (simp add: list_commands_def state2_fields docstring_rules_def
             del: list_commands_loop.simps(2))
qed

lemma docstring_squash:
  "squash_flags ''pwpw'' = ''pwpw''" "squash_flags ''pwPf'' = ''wf''"
  by (simp_all add: squash_flags_def case_tables)

lemma docstring_built:
  "build_command w [''a''] ''cmd'' (Some ''pw'') state2 =
     Inr (''set -- '' @ [CHR 0x27] @ ''a'' @ [CHR 0x27, CHR 0x0A] @ ''cmd'',
          state2\<lparr>app_flags := ''pwpw''\<rparr>)"
proof -
  have "apply_flags w ''cmd'' ''pwpw'' (state2\<lparr>app_flags := ''pwpw''\<rparr>)
          = Inr (''cmd'', state2\<lparr>app_flags := ''pwpw''\<rparr>)"
    by (simp add: apply_flags_def)
  then show ?thesis
    by (simp add: build_command_def Let_def state2_fields docstring_squash escape_quotes_def)
qed

lemma docstring_expected:
  "build_command world0 [''a''] ''cmd'' (Some ''Pf'') state2 =
     Inr (''set -- '' @ [CHR 0x27] @ ''a'' @ [CHR 0x27, CHR 0x0A] @ ''nohup cmd'' @ detach_suffix,
          state2\<lparr>app_flags := ''wf''\<rparr>)"
proof -
  have "apply_flags world0 ''cmd'' ''wf'' (state2\<lparr>app_flags := ''wf''\<rparr>)
          = Inr (''nohup cmd'' @ detach_suffix, state2\<lparr>app_flags := ''wf''\<rparr>)"
    by (simp add: apply_flags_def world0_def)
  then show ?thesis
    by (simp add: build_command_def Let_def state2_fields docstring_squash escape_quotes_def)
qed

text \<open>
  C1, at the input where the code departs from it: the example of the docstring of \<open>execute\<close>,
  a rule with the flags "pw" dispatched with the caller's flags "Pf". Whatever the caller
  passes, the loop of \<open>execute\<close> rebinds \<open>flags\<close> to the flags of the tuple drawn, so the builder
  appends the rule's flags to themselves: the command is built with squash("pwpw") = "pwpw"
  and runs in the foreground. With squash("pw" + "Pf") = "wf", which the claim and the
  docstring ask for, the builder would have detached the command.
\<close>

theorem execute_rebinds_caller_flags:
  "execute world0 [''a''] 0 None caller_flags None state1 =
     Inr (Some (''set -- '' @ [CHR 0x27] @ ''a'' @ [CHR 0x27, CHR 0x0A] @ ''cmd''),
          setdefault ''EDITOR'' DEFAULT_EDITOR
            (setdefault ''PAGER'' DEFAULT_PAGER (state2\<lparr>app_flags := ''pwpw''\<rparr>)))
   \<and> squash_flags (''pw'' @ ''Pf'') = ''wf''
   \<and> build_command world0 [''a''] ''cmd'' (Some ''Pf'') state2 =
       Inr (''set -- '' @ [CHR 0x27] @ ''a'' @ [CHR 0x27, CHR 0x0A] @ ''nohup cmd'' @ detach_suffix,
            state2\<lparr>app_flags := ''wf''\<rparr>)"
proof -
  have d: "determine_command world0 [''a''] 0 None caller_flags None state1 =
      Inr (Some (''set -- '' @ [CHR 0x27] @ ''a'' @ [CHR 0x27, CHR 0x0A] @ ''cmd''), False,
           state2\<lparr>app_flags := ''pwpw''\<rparr>)"
    by (simp add: determine_command_def docstring_listed hook_command_preprocessing_def
          docstring_built)
  have e: "execute world0 [''a''] 0 None caller_flags None state1 =
     Inr (Some (''set -- '' @ [CHR 0x27] @ ''a'' @ [CHR 0x27, CHR 0x0A] @ ''cmd''),
          setdefault ''EDITOR'' DEFAULT_EDITOR
            (setdefault ''PAGER'' DEFAULT_PAGER (state2\<lparr>app_flags := ''pwpw''\<rparr>)))"
    unfolding execute_def d by (simp add: hook_command_postprocessing_def)
  from e docstring_squash(2) docstring_expected show ?thesis by simp
qed

lemma yielded_flags:
  "(m, s1) \<in> set (fst (list_commands_loop w rs files count s)) \<Longrightarrow> app_flags s1 = snd (snd (snd m))"
proof (induction rs arbitrary: count s)
  case Nil
  then show ?case by simp
next
  case (Cons r rs)
  obtain cmd tests where r: "r = (cmd, tests)" by (cases r)
  show ?case
  proof (cases "eval_tests w tests files (reset s)")
    case (Inl e)
    with Cons.prems show ?thesis unfolding r loop_step_error [OF Inl] by simp
  next
    case (Inr p)
    obtain ok s2 where p: "p = (ok, s2)" by (cases p)
    show ?thesis
    proof (cases ok)
      case False
      with Inr p have ev: "eval_tests w tests files (reset s) = Inr (False, s2)" by simp
      from Cons.prems Cons.IH [of count s2] show ?thesis
        unfolding r loop_step_fail [OF ev] by simp
    next
      case True
      with Inr p have ev: "eval_tests w tests files (reset s) = Inr (True, s2)" by simp
      from Cons.prems Cons.IH [of _ s2] show ?thesis
        unfolding r loop_step_ok [OF ev refl] by auto
    qed
  qed
qed

lemma selected_mem:
  "select_command number label ys found flags = Selected m s1 fnd \<Longrightarrow> (m, s1) \<in> set ys"
  by (induction number label ys found flags rule: select_command.induct) (auto split: if_splits)

lemma apply_flags_keeps_flags:
  "apply_flags w action flags s = Inr (a, s1) \<Longrightarrow> app_flags s1 = app_flags s"
  by (auto simp: apply_flags_def hook_logger_def Let_def split: if_splits option.splits)

lemma build_command_flags:
  "build_command w files action (Some f) s = Inr (c, s1) \<Longrightarrow>
   app_flags s1 = squash_flags (app_flags s @ f)"
  by (auto simp: build_command_def Let_def split: sum.splits dest!: apply_flags_keeps_flags)

text \<open>
  What \<open>execute\<close> does with flags, for every dispatch that selects a tuple: the caller's flags
  \<open>F\<close> play no part. The builder is called with the flags \<open>R\<close> of the selected tuple, the
  instance holds these same flags at that moment, and so a command that is built is built with
  the flag string squash(R + R).
\<close>

theorem dispatch_builds_with_rule_flags_only:
  "select_command number label (fst (list_commands w files mt s)) False F
     = Selected (count, cmd, lbl, R) s1 fnd \<Longrightarrow>
   determine_command w files number label F mt s =
     (case build_command w files cmd (Some R) s1 of
        Inl e \<Rightarrow> Inl e
      | Inr (command, s2) \<Rightarrow> Inr (Some command, fnd, s2))
   \<and> app_flags s1 = R
   \<and> (\<forall>command s2. build_command w files cmd (Some R) s1 = Inr (command, s2)
         \<longrightarrow> app_flags s2 = squash_flags (R @ R))"
proof -
  assume sel: "select_command number label (fst (list_commands w files mt s)) False F
     = Selected (count, cmd, lbl, R) s1 fnd"
  have a: "determine_command w files number label F mt s =
     (case build_command w files cmd (Some R) s1 of
        Inl e \<Rightarrow> Inl e
      | Inr (command, s2) \<Rightarrow> Inr (Some command, fnd, s2))"
  proof (cases "list_commands w files mt s")
    case (Pair ys fin)
    with sel show ?thesis
      by (simp add: determine_command_def hook_command_preprocessing_def)
  qed
  from selected_mem [OF sel]
  have mem: "((count, cmd, lbl, R), s1) \<in> set (fst (list_commands w files mt s))" .
  have b: "app_flags s1 = R"
  proof (cases "rules s")
    case None
    with mem show ?thesis by (simp add: list_commands_def)
  next
    case (Some rs)
    with mem yielded_flags [of "(count, cmd, lbl, R)" s1 w rs files "- 1" "s\<lparr>mimetype := mt\<rparr>"]
    show ?thesis by (simp add: list_commands_def)
  qed
  from a b build_command_flags [of w files cmd R s1] show ?thesis by auto
qed

theorem dispatch_builds_with_rule_flags_only_witness:
  "determine_command world0 [''a''] 0 None (Some ''Pf'') None state1 =
     Inr (Some (''set -- '' @ [CHR 0x27] @ ''a'' @ [CHR 0x27, CHR 0x0A] @ ''cmd''), False,
          state2\<lparr>app_flags := ''pwpw''\<rparr>)
   \<and> app_flags state2 = ''pw''"
proof -
  have sel: "select_command 0 None (fst (list_commands world0 [''a''] None state1)) False (Some ''Pf'')
     = Selected (0, ''cmd'', None, ''pw'') state2 False"
    by (simp add: docstring_listed)
  from dispatch_builds_with_rule_flags_only [OF sel] show ?thesis
    by (simp add: docstring_built)
qed

section \<open>Properties of the tag store\<close>

lemma readlines_line:
  "CHR 0x0A \<notin> set l \<Longrightarrow> readlines (l @ CHR 0x0A # rest) = (l @ [CHR 0x0A]) # readlines rest"
  by (induction l) auto

lemma strip_line: "strip (l @ [CHR 0x0A]) = strip l"
  by (simp add: strip_def rstrip_def is_space_def)

lemma parse_lines:
  "list_all clean xs \<Longrightarrow>
   map strip (readlines (concat (map (\<lambda>line. line @ [CHR 0x0A]) xs))) = xs"
  by (induction xs) (simp_all add: readlines_line strip_line clean_def)

lemma parse_compile:
  assumes "set (order T) = T" and "\<forall>t\<in>T. clean t"
  shows "parse (compile order T) = T"
proof -
  from assms have "list_all clean (order T)"
    by (simp add: list_all_iff)
  then show ?thesis
    by (simp add: parse_def compile_def parse_lines assms(1))
qed

lemma clean_a: "clean ''a''"
  by (simp add: clean_def strip_def rstrip_def lstrip_def is_space_def)

lemma clean_b: "clean ''b''"
  by (simp add: clean_def strip_def rstrip_def lstrip_def is_space_def)

lemma Tags_tag_file: "Tags (tag_file text) = (tag_file text, Some (parse text))"
  by (simp add: Tags_def tag_file_def sync_def)

lemma mutate_tag_file:
  "loop items (Some (parse text)) = Inr (Some T) \<Longrightarrow>
   mutate loop order items (tag_file text, t) = Inr (tag_file (compile order T), Some T)"
  by (simp add: mutate_def sync_def dump_def tag_file_def)

text \<open>
  C9. Whatever the order in which a set is iterated: adding "a" and "b" through an instance
  on an empty tag file leaves a file from which a fresh instance reads the set {"a", "b"};
  toggling "a" then leaves the set {"b"}, in the instance and in the file as a fresh instance
  reads it; and toggling "a" once more gives {"a", "b"} again.
\<close>

theorem tags_round_trip:
  assumes order: "\<And>T. finite T \<Longrightarrow> set (order T) = T"
  shows "add order [''a'', ''b''] (Tags (tag_file []))
           = Inr (tag_file (compile order {''a'', ''b''}), Some {''a'', ''b''})
    \<and> Tags (tag_file (compile order {''a'', ''b''}))
           = (tag_file (compile order {''a'', ''b''}), Some {''a'', ''b''})
    \<and> toggle order [''a''] (Tags (tag_file (compile order {''a'', ''b''})))
           = Inr (tag_file (compile order {''b''}), Some {''b''})
    \<and> Tags (tag_file (compile order {''b''})) = (tag_file (compile order {''b''}), Some {''b''})
    \<and> toggle order [''a''] (Tags (tag_file (compile order {''b''})))
           = Inr (tag_file (compile order {''a'', ''b''}), Some {''a'', ''b''})"
proof -
  have pab: "parse (compile order {''a'', ''b''}) = {''a'', ''b''}"
    by (rule parse_compile) (simp_all add: order clean_a clean_b)
  have pb: "parse (compile order {''b''}) = {''b''}"
    by (rule parse_compile) (simp_all add: order clean_b)
  have p0: "parse [] = {}"
    by (simp add: parse_def)
  have ins: "insert ''b'' {''a''} = {''a'', ''b''}"
    by auto
  have del: "{''a'', ''b''} - {''a''} = {''b''}"
    by auto
  have 1: "add order [''a'', ''b''] (Tags (tag_file []))
             = Inr (tag_file (compile order {''a'', ''b''}), Some {''a'', ''b''})"
    unfolding Tags_tag_file add_def by (rule mutate_tag_file) (simp add: p0 ins)
  have 2: "Tags (tag_file (compile order {''a'', ''b''}))
             = (tag_file (compile order {''a'', ''b''}), Some {''a'', ''b''})"
    by (simp add: Tags_tag_file pab)
  have 3: "toggle order [''a''] (Tags (tag_file (compile order {''a'', ''b''})))
             = Inr (tag_file (compile order {''b''}), Some {''b''})"
    unfolding Tags_tag_file toggle_def by (rule mutate_tag_file) (simp add: pab del)
  have 4: "Tags (tag_file (compile order {''b''})) = (tag_file (compile order {''b''}), Some {''b''})"
    by (simp add: Tags_tag_file pb)
  have 5: "toggle order [''a''] (Tags (tag_file (compile order {''b''})))
             = Inr (tag_file (compile order {''a'', ''b''}), Some {''a'', ''b''})"
    unfolding Tags_tag_file toggle_def by (rule mutate_tag_file) (simp add: pb)
  from 1 2 3 4 5 show ?thesis by blast
qed

theorem tags_round_trip_witness:
  "add sorted_list_of_set [''a'', ''b''] (Tags (tag_file []))
     = Inr (tag_file (''a'' @ [CHR 0x0A] @ ''b'' @ [CHR 0x0A]), Some {''a'', ''b''})
   \<and> Tags (tag_file (''a'' @ [CHR 0x0A] @ ''b'' @ [CHR 0x0A]))
     = (tag_file (''a'' @ [CHR 0x0A] @ ''b'' @ [CHR 0x0A]), Some {''a'', ''b''})
   \<and> toggle sorted_list_of_set [''a''] (Tags (tag_file (''a'' @ [CHR 0x0A] @ ''b'' @ [CHR 0x0A])))
     = Inr (tag_file (''b'' @ [CHR 0x0A]), Some {''b''})
   \<and> toggle sorted_list_of_set [''a''] (Tags (tag_file (''b'' @ [CHR 0x0A])))
     = Inr (tag_file (''a'' @ [CHR 0x0A] @ ''b'' @ [CHR 0x0A]), Some {''a'', ''b''})"
proof -
  have h: "\<And>T :: string set. finite T \<Longrightarrow> set (sorted_list_of_set T) = T"
    by simp
  have lt: "''a'' < ''b''"
    by (simp add: less_char_def)
  have sab: "sorted_list_of_set {''a'', ''b''} = [''a'', ''b'']"
    using lt by (simp add: less_imp_le)
  have cab: "compile sorted_list_of_set {''a'', ''b''} = ''a'' @ [CHR 0x0A] @ ''b'' @ [CHR 0x0A]"
    by (simp add: compile_def sab)
  have cb: "compile sorted_list_of_set {''b''} = ''b'' @ [CHR 0x0A]"
    by (simp add: compile_def)
  from tags_round_trip [of sorted_list_of_set, OF h] show ?thesis
    unfolding cab cb by blast
qed


end
